theory Spec2Isabelle
  imports Main
begin

section \<open>Data model\<close>

text \<open>
  JSON values, as the responses of the routes carry them
  (\<^verbatim>\<open>res.json({...})\<close>): an object is the list of its keys in the order the
  source writes them.
\<close>

datatype json =
    JNull
  | JBool bool
  | JNum nat
  | JStr string
  | JObj "(string \<times> json) list"
  | JArr "json list"

text \<open>
  What a route sends: \<^verbatim>\<open>res.status(n).json(v)\<close> (\<^verbatim>\<open>res.json(v)\<close> is status 200),
  \<^verbatim>\<open>res.redirect(path)\<close>, or the redirect of \<^verbatim>\<open>passport.authenticate('google', {scope})\<close>
  to the provider's authorization endpoint with the scopes it asks for.
\<close>

datatype response =
    Json nat json
  | Redirect string
  | ProviderRedirect "string list"

text \<open>
  A JavaScript error value: \<^verbatim>\<open>err.message\<close> and \<^verbatim>\<open>err.stack\<close>. The constructor
  functions below name the kinds the code can meet.
\<close>

record error =
  message :: string
  stack :: string

definition TypeError :: "string \<Rightarrow> error" where
  "TypeError m = \<lparr>message = m, stack = ''TypeError: '' @ m\<rparr>"

definition ValidationError :: "string \<Rightarrow> error" where
  "ValidationError m = \<lparr>message = m, stack = ''ValidationError: '' @ m\<rparr>"

definition MongoServerError :: "string \<Rightarrow> error" where
  "MongoServerError m = \<lparr>message = m, stack = ''MongoServerError: '' @ m\<rparr>"

definition MongooseError :: "string \<Rightarrow> error" where
  "MongooseError m = \<lparr>message = m, stack = ''MongooseError: '' @ m\<rparr>"

text \<open>
  The User schema (\<^verbatim>\<open>models/User.js\<close>): \<^verbatim>\<open>googleId\<close> and \<^verbatim>\<open>email\<close> are required and
  unique, \<^verbatim>\<open>displayName\<close> is required, the two dates default to \<^verbatim>\<open>Date.now\<close>.
  \<open>oid\<close> is the document's \<^verbatim>\<open>_id\<close>; dates are milliseconds.
\<close>

record user_doc =
  oid :: nat
  googleId :: string
  email :: string
  displayName :: string
  firstName :: "string option"
  lastName :: "string option"
  picture :: "string option"
  createdAt :: nat
  lastLogin :: nat

text \<open>
  The object literal handed to \<^verbatim>\<open>User.create\<close>, before validation: a required
  string may still be \<^verbatim>\<open>undefined\<close> (\<open>None\<close>) or empty.
\<close>

record user_fields =
  f_googleId :: "string option"
  f_email :: "string option"
  f_displayName :: "string option"
  f_firstName :: "string option"
  f_lastName :: "string option"
  f_picture :: "string option"

text \<open>
  The profile the provider returns. \<^verbatim>\<open>emails\<close>, \<^verbatim>\<open>name\<close> and \<^verbatim>\<open>photos\<close> may be
  missing (\<open>None\<close>), and the two arrays may be empty; an array holds the
  \<^verbatim>\<open>value\<close> of each entry.
\<close>

record profile_name =
  givenName :: "string option"
  familyName :: "string option"

record profile =
  profile_id :: string
  emails :: "string list option"
  profile_displayName :: "string option"
  profile_name :: "profile_name option"
  photos :: "string list option"

text \<open>
  Modelled from the spec: the status of a task, one of pending, in-progress and
  completed (the Task schema, \<^verbatim>\<open>models/Task.js\<close>, is not among the sources).
\<close>

datatype task_status = Pending | InProgress | Completed

text \<open>
  Modelled from the spec: a task document (the Task schema is not among the sources).
  The fields are those of the data model and of the schema \<^verbatim>\<open>Task\<close> in the route
  documentation of \<^verbatim>\<open>routes/tasks.js\<close>; \<open>userId\<close> is the owner.
\<close>

record task =
  task_id :: nat
  title :: string
  description :: string
  status :: task_status
  dueDate :: string
  userId :: nat
  task_createdAt :: nat

text \<open>A successful persistence write, as the store's log keeps it.\<close>

datatype db_write =
    UserInsert nat
  | UserUpdate nat
  | TaskInsert nat
  | TaskUpdate nat
  | TaskDelete nat

text \<open>
  A server-side session binding: the account id \<^verbatim>\<open>serializeUser\<close> stored and the
  time the binding expires.
\<close>

record session =
  accountId :: nat
  expiresAt :: nat

text \<open>
  The state a request runs against: the two collections, the log of the writes the
  store accepted, whether the MongoDB connection is up (the server starts before it
  connects: "Server running but database unavailable"), the session bindings by handle,
  and what \<^verbatim>\<open>console.error\<close> has printed.
\<close>

record state =
  users :: "user_doc list"
  tasks :: "task list"
  writes :: "db_write list"
  db_connected :: bool
  sessions :: "(string \<times> session) list"
  console :: "string list"

section \<open>The store (Mongoose operations on the User model)\<close>

text \<open>
  The persistent store is MongoDB behind Mongoose, an external collaborator: the
  operations the code calls on the User model follow the spec's contract of the store
  (create, find by id, find by filter, update, with the unique constraints enforced)
  under the schema of \<^verbatim>\<open>models/User.js\<close>.
\<close>

text \<open>
  Modelled from the spec: the error of a store operation while the connection is down
  (Mongoose gives up buffering the operation).
\<close>

definition db_down :: error where
  "db_down = MongooseError ''Operation buffering timed out''"

text \<open>
  Modelled from the spec: find by filter, \<^verbatim>\<open>User.findOne({ googleId: g })\<close>: the
  first document with that \<^verbatim>\<open>googleId\<close>, or \<^verbatim>\<open>null\<close>.
\<close>

definition findOne_googleId :: "string \<Rightarrow> state \<Rightarrow> error + user_doc option" where
  "findOne_googleId g s =
     (if db_connected s then Inr (find (\<lambda>u. googleId u = g) (users s)) else Inl db_down)"

text \<open>
  Modelled from the spec: find by id, \<^verbatim>\<open>User.findById(id)\<close>: the document with that
  \<^verbatim>\<open>_id\<close>, or \<^verbatim>\<open>null\<close>.
\<close>

definition findById :: "nat \<Rightarrow> state \<Rightarrow> error + user_doc option" where
  "findById i s =
     (if db_connected s then Inr (find (\<lambda>u. oid u = i) (users s)) else Inl db_down)"

text \<open>
  Modelled from the spec: update, \<^verbatim>\<open>user.save()\<close>: the document is written back
  under its \<^verbatim>\<open>_id\<close>.
\<close>

definition save :: "user_doc \<Rightarrow> state \<Rightarrow> error + state" where
  "save u s =
     (if db_connected s
      then Inr (s\<lparr>users := map (\<lambda>v. if oid v = oid u then u else v) (users s),
                  writes := writes s @ [UserUpdate (oid u)]\<rparr>)
      else Inl db_down)"

text \<open>
  Modelled from the spec: the \<^verbatim>\<open>_id\<close> of a new document, one no document of the
  collection has.
\<close>

definition fresh_oid :: "user_doc list \<Rightarrow> nat" where
  "fresh_oid us = Suc (foldr max (map oid us) 0)"

text \<open>
  Modelled from the spec: create, \<^verbatim>\<open>User.create(fields)\<close>, under the schema of
  \<^verbatim>\<open>models/User.js\<close>: schema validation (a required string path must be present and
  not empty), then the insert, which the unique indexes on \<^verbatim>\<open>googleId\<close> and
  \<^verbatim>\<open>email\<close> reject with a duplicate-key error; \<^verbatim>\<open>createdAt\<close> and \<^verbatim>\<open>lastLogin\<close> take
  their default \<^verbatim>\<open>Date.now\<close>.
\<close>

definition create :: "nat \<Rightarrow> user_fields \<Rightarrow> state \<Rightarrow> error + (user_doc \<times> state)" where
  "create now f s =
     (case (f_googleId f, f_email f, f_displayName f) of
        (Some g, Some e, Some d) \<Rightarrow>
          if g = [] \<or> e = [] \<or> d = []
          then Inl (ValidationError ''User validation failed'')
          else if \<not> db_connected s then Inl db_down
          else if g \<in> set (map googleId (users s)) \<or> e \<in> set (map email (users s))
          then Inl (MongoServerError ''E11000 duplicate key error'')
          else
            let u = \<lparr>oid = fresh_oid (users s), googleId = g, email = e, displayName = d,
                     firstName = f_firstName f, lastName = f_lastName f,
                     picture = f_picture f, createdAt = now, lastLogin = now\<rparr>
            in Inr (u, s\<lparr>users := users s @ [u],
                         writes := writes s @ [UserInsert (oid u)]\<rparr>)
      | _ \<Rightarrow> Inl (ValidationError ''User validation failed''))"

section \<open>Passport configuration (config/passport.js)\<close>

text \<open>What a callback hands to \<^verbatim>\<open>done(err, value)\<close>.\<close>

datatype 'a done_call = Done "error option" "'a option"

text \<open>\<^verbatim>\<open>passport.serializeUser((user, done) => done(null, user.id))\<close>\<close>

definition serializeUser :: "user_doc \<Rightarrow> nat done_call" where
  "serializeUser u = Done None (Some (oid u))"

text \<open>
  \<^verbatim>\<open>passport.deserializeUser\<close>: \<^verbatim>\<open>done(null, user)\<close> with what \<^verbatim>\<open>findById\<close> found
  (\<^verbatim>\<open>null\<close> when there is no such document), \<^verbatim>\<open>done(error, null)\<close> when it threw.
\<close>

definition deserializeUser :: "nat \<Rightarrow> state \<Rightarrow> user_doc done_call" where
  "deserializeUser i s =
     (case findById i s of
        Inr u \<Rightarrow> Done None u
      | Inl e \<Rightarrow> Done (Some e) None)"

text \<open>
  \<^verbatim>\<open>xs[0].value\<close>: a \<^verbatim>\<open>TypeError\<close> when \<^verbatim>\<open>xs\<close> is \<^verbatim>\<open>undefined\<close>, and when it is
  empty (\<^verbatim>\<open>xs[0]\<close> is then \<^verbatim>\<open>undefined\<close>), with the message Node gives it.
\<close>

definition first_value :: "string list option \<Rightarrow> error + string" where
  "first_value xs =
     (case xs of
        None \<Rightarrow> Inl (TypeError ''Cannot read properties of undefined (reading '0')'')
      | Some [] \<Rightarrow> Inl (TypeError ''Cannot read properties of undefined (reading 'value')'')
      | Some (x # _) \<Rightarrow> Inr x)"

text \<open>
  The object literal of the verify callback, its properties evaluated in the order
  written: \<^verbatim>\<open>profile.emails[0].value\<close>, then \<^verbatim>\<open>profile.name.givenName\<close> and
  \<^verbatim>\<open>profile.name.familyName\<close>, then \<^verbatim>\<open>profile.photos[0].value\<close>. The first access
  that fails throws.
\<close>

definition new_user_fields :: "profile \<Rightarrow> error + user_fields" where
  "new_user_fields p =
     (case first_value (emails p) of
        Inl e \<Rightarrow> Inl e
      | Inr mail \<Rightarrow>
          (case profile_name p of
             None \<Rightarrow>
               Inl (TypeError ''Cannot read properties of undefined (reading 'givenName')'')
           | Some n \<Rightarrow>
               (case first_value (photos p) of
                  Inl e \<Rightarrow> Inl e
                | Inr photo \<Rightarrow>
                    Inr \<lparr>f_googleId = Some (profile_id p), f_email = Some mail,
                         f_displayName = profile_displayName p,
                         f_firstName = givenName n, f_lastName = familyName n,
                         f_picture = Some photo\<rparr>)))"

text \<open>
  The body of the \<^verbatim>\<open>try\<close> block of the verify callback. \<open>Inl\<close> is a thrown error,
  \<open>Inr\<close> the call of \<^verbatim>\<open>done\<close> the body ends with, and the state it leaves.
\<close>

definition verify_body :: "nat \<Rightarrow> profile \<Rightarrow> state \<Rightarrow> error + (user_doc done_call \<times> state)" where
  "verify_body now p s =
     (case findOne_googleId (profile_id p) s of
        Inl e \<Rightarrow> Inl e
      | Inr (Some user) \<Rightarrow>
          (let user' = user\<lparr>lastLogin := now\<rparr> in
           case save user' s of
             Inl e \<Rightarrow> Inl e
           | Inr s' \<Rightarrow> Inr (Done None (Some user'), s'))
      | Inr None \<Rightarrow>
          (case new_user_fields p of
             Inl e \<Rightarrow> Inl e
           | Inr f \<Rightarrow>
               (case create now f s of
                  Inl e \<Rightarrow> Inl e
                | Inr (user, s') \<Rightarrow> Inr (Done None (Some user), s'))))"

text \<open>
  The verify callback of the Google strategy: the \<^verbatim>\<open>try\<close> block, and the
  \<^verbatim>\<open>catch\<close> that prints the error and calls \<^verbatim>\<open>done(error, null)\<close>. The result is
  \<open>Inl\<close> if an error leaves the callback.
\<close>

definition verify :: "nat \<Rightarrow> profile \<Rightarrow> state \<Rightarrow> (error + user_doc done_call) \<times> state" where
  "verify now p s =
     (case verify_body now p s of
        Inr (d, s') \<Rightarrow> (Inr d, s')
      | Inl e \<Rightarrow>
          (Inr (Done (Some e) None),
           s\<lparr>console := console s @ [''Error in Google Strategye: '' @ stack e]\<rparr>))"

section \<open>Requests and the middleware chain (server.js)\<close>

text \<open>
  Modelled from the spec: the body of a task request, as the route documentation of
  \<^verbatim>\<open>routes/tasks.js\<close> gives it. Each field may be left out.
\<close>

record task_input =
  in_title :: "string option"
  in_description :: "string option"
  in_status :: "string option"
  in_dueDate :: "string option"

text \<open>
  A request: the session handle its cookie carries (if any), \<^verbatim>\<open>req.user\<close>, the
  \<^verbatim>\<open>:id\<close> path parameter (\<open>None\<close> when it is not a well-formed id) and the body.
\<close>

record request =
  cookie :: "string option"
  user :: "user_doc option"
  param_id :: "nat option"
  body :: task_input

text \<open>
  What a middleware does with a request: \<^verbatim>\<open>next()\<close>, \<^verbatim>\<open>next(err)\<close>, or a response.
  \<open>Unhandled\<close> is an error that leaves an asynchronous callback uncaught: nothing
  answers the request.
\<close>

datatype outcome =
    Next request
  | NextErr error
  | Respond response
  | Unhandled error

type_synonym middleware = "request \<Rightarrow> state \<Rightarrow> outcome \<times> state"

text \<open>A middleware that neither reads nor changes the state.\<close>

definition pure_mw :: "(request \<Rightarrow> outcome) \<Rightarrow> middleware" where
  "pure_mw f = (\<lambda>req s. (f req, s))"

text \<open>
  The error handler, the last middleware of the application:
  \<^verbatim>\<open>console.error(err.stack)\<close>, then status 500 with \<^verbatim>\<open>success\<close>, \<^verbatim>\<open>message\<close> and
  \<^verbatim>\<open>error: err.message\<close>.
\<close>

definition error_handler :: "error \<Rightarrow> state \<Rightarrow> response \<times> state" where
  "error_handler err s =
     (Json 500 (JObj [(''success'', JBool False),
                      (''message'', JStr ''Something went wrong!''),
                      (''error'', JStr (message err))]),
      s\<lparr>console := console s @ [stack err]\<rparr>)"

text \<open>The 404 handler, reached when no route answered.\<close>

definition not_found_handler :: response where
  "not_found_handler =
     Json 404 (JObj [(''success'', JBool False), (''message'', JStr ''Route not found'')])"

text \<open>
  Modelled from the spec: the HTTP framework's dispatch (Express, an external
  collaborator). It runs the chain in order: \<^verbatim>\<open>next()\<close> moves on with the request
  as it now is, \<^verbatim>\<open>next(err)\<close> skips to the error handler, a response ends the chain,
  and a request no route answered gets the 404 handler; \<^verbatim>\<open>server.js\<close> registers the
  two handlers last.
\<close>

fun run :: "middleware list \<Rightarrow> request \<Rightarrow> state \<Rightarrow> outcome \<times> state" where
  "run [] req s = (Respond not_found_handler, s)"
| "run (m # ms) req s =
     (case m req s of
        (Next req', s') \<Rightarrow> run ms req' s'
      | (NextErr e, s') \<Rightarrow> (case error_handler e s' of (r, s'') \<Rightarrow> (Respond r, s''))
      | (Respond r, s') \<Rightarrow> (Respond r, s')
      | (Unhandled e, s') \<Rightarrow> (Unhandled e, s'))"

section \<open>Session configuration (server.js)\<close>

text \<open>The environment variables the session configuration reads.\<close>

record env =
  NODE_ENV :: "string option"
  SESSION_SECRET :: "string option"

definition default_secret :: string where
  "default_secret = ''bb2a4debe08259c3e57587164e7f9ceed1fc35a7be58448781c8203ec53c7cf7''"

text \<open>\<^verbatim>\<open>a || b\<close> on an environment variable: unset and empty are both falsy.\<close>

definition or_default :: "string option \<Rightarrow> string \<Rightarrow> string" where
  "or_default v d = (case v of None \<Rightarrow> d | Some x \<Rightarrow> if x = [] then d else x)"

text \<open>\<^verbatim>\<open>maxAge: 24 * 60 * 60 * 1000\<close>\<close>

definition cookie_maxAge :: nat where
  "cookie_maxAge = 24 * 60 * 60 * 1000"

text \<open>The \<^verbatim>\<open>cookie\<close> object of the session options.\<close>

definition session_cookie :: "env \<Rightarrow> (string \<times> json) list" where
  "session_cookie e =
     [(''secure'', JBool (NODE_ENV e = Some ''production'')),
      (''httpOnly'', JBool True),
      (''maxAge'', JNum cookie_maxAge),
      (''sameSite'', JStr (if NODE_ENV e = Some ''production'' then ''none'' else ''lax''))]"

text \<open>The options handed to \<^verbatim>\<open>session({...})\<close>, key by key.\<close>

definition session_options :: "env \<Rightarrow> (string \<times> json) list" where
  "session_options e =
     [(''secret'', JStr (or_default (SESSION_SECRET e) default_secret)),
      (''resave'', JBool False),
      (''saveUninitialized'', JBool False),
      (''cookie'', JObj (session_cookie e))]"

section \<open>The session manager\<close>

text \<open>
  The Session Manager is \<^verbatim>\<open>express-session\<close> with \<^verbatim>\<open>passport.session()\<close>: libraries
  the application configures and calls but does not contain. Its three operations
  follow the spec's contract.
\<close>

text \<open>
  Modelled from the spec: the result of validating a session handle, the resolved
  account or invalid. \<open>Failed\<close> carries the error \<^verbatim>\<open>deserializeUser\<close> hands to
  \<^verbatim>\<open>done\<close> when the lookup throws; Passport passes it on to \<^verbatim>\<open>next(err)\<close>.
\<close>

datatype validation = Valid user_doc | Invalid | Failed error

text \<open>
  Modelled from the spec: \<open>issue\<close> records the binding of a handle to an account id
  with a fixed time to live, the configured \<^verbatim>\<open>maxAge\<close>. The handle is generated
  outside (the library's session id).
\<close>

definition issue :: "string \<Rightarrow> nat \<Rightarrow> nat \<Rightarrow> state \<Rightarrow> state" where
  "issue h i now s =
     s\<lparr>sessions := (h, \<lparr>accountId = i, expiresAt = now + cookie_maxAge\<rparr>) # sessions s\<rparr>"

text \<open>
  Modelled from the spec: \<open>validate\<close> looks the binding up and fails if the handle is
  absent, has no binding, is expired, or the bound account no longer exists. The
  account is resolved by \<^verbatim>\<open>deserializeUser\<close>. Validation does not renew the expiry.
\<close>

definition validate :: "nat \<Rightarrow> string option \<Rightarrow> state \<Rightarrow> validation" where
  "validate now h s =
     (case h of
        None \<Rightarrow> Invalid
      | Some k \<Rightarrow>
          (case map_of (sessions s) k of
             None \<Rightarrow> Invalid
           | Some b \<Rightarrow>
               if expiresAt b \<le> now then Invalid
               else
                 (case deserializeUser (accountId b) s of
                    Done (Some e) _ \<Rightarrow> Failed e
                  | Done None None \<Rightarrow> Invalid
                  | Done None (Some u) \<Rightarrow> Valid u)))"

text \<open>
  Modelled from the spec: \<open>revoke\<close> deletes the binding of a handle unconditionally.
\<close>

definition revoke :: "string option \<Rightarrow> state \<Rightarrow> state" where
  "revoke h s =
     (case h of
        None \<Rightarrow> s
      | Some k \<Rightarrow> s\<lparr>sessions := filter (\<lambda>kb. fst kb \<noteq> k) (sessions s)\<rparr>)"

text \<open>
  Modelled from the spec: \<^verbatim>\<open>passport.session()\<close>, which validates the session of
  every request and attaches the resolved account as \<^verbatim>\<open>req.user\<close>.
\<close>

definition passport_session :: "nat \<Rightarrow> middleware" where
  "passport_session now req s =
     (case validate now (cookie req) s of
        Valid u \<Rightarrow> (Next (req\<lparr>user := Some u\<rparr>), s)
      | Invalid \<Rightarrow> (Next (req\<lparr>user := None\<rparr>), s)
      | Failed e \<Rightarrow> (NextErr e, s))"

text \<open>
  Modelled from the spec: \<^verbatim>\<open>req.isAuthenticated()\<close> (Passport), true when an account
  is attached to the request.
\<close>

definition isAuthenticated :: "request \<Rightarrow> bool" where
  "isAuthenticated req = (user req \<noteq> None)"

section \<open>The guards (middleware/auth.js)\<close>

definition auth_required :: response where
  "auth_required =
     Json 401 (JObj [(''success'', JBool False),
                     (''message'', JStr ''Authentication required. Please login first.''),
                     (''redirectTo'', JStr ''/auth/google'')])"

definition ensureAuthenticated :: "request \<Rightarrow> outcome" where
  "ensureAuthenticated req =
     (if isAuthenticated req then Next req else Respond auth_required)"

definition ensureGuest :: "request \<Rightarrow> outcome" where
  "ensureGuest req =
     (if isAuthenticated req then Respond (Redirect ''/dashboard'') else Next req)"

section \<open>The authentication routes (routes/auth.js)\<close>

text \<open>
  Modelled from the spec: the OAuth Exchange Adapter (\<^verbatim>\<open>passport.authenticate\<close> of
  the Google strategy, a library). On the login route, \<open>beginLogin\<close> redirects to the
  provider's authorization endpoint with the scopes asked for.
\<close>

definition passport_authenticate_begin :: "string list \<Rightarrow> middleware" where
  "passport_authenticate_begin scope req s = (Respond (ProviderRedirect scope), s)"

text \<open>\<^verbatim>\<open>router.get('/google', passport.authenticate('google', {scope: ['profile', 'email']}))\<close>\<close>

definition auth_google :: "middleware list" where
  "auth_google = [passport_authenticate_begin [''profile'', ''email'']]"

text \<open>
  Modelled from the spec: the OAuth Exchange Adapter on the callback route
  (\<^verbatim>\<open>passport.authenticate\<close> of the Google strategy, a library). \<open>completeLogin\<close>
  exchanges the code for a verified profile or fails with a provider error
  (\<open>exchange\<close>, decided by the provider); a failed exchange is surfaced as the redirect
  to the login-failed route. The profile goes to the verify callback, and the strategy
  acts on what the callback hands to \<^verbatim>\<open>done\<close> the way Passport's strategies do: an
  error goes to \<^verbatim>\<open>next(err)\<close>, \<^verbatim>\<open>done(null, false)\<close> is a failed login (the failure
  redirect), and \<^verbatim>\<open>done(null, user)\<close> logs the user in, with \<^verbatim>\<open>serializeUser\<close> and a
  session issued under the new handle \<open>h\<close>. An error that leaves the asynchronous
  verify callback is caught by nobody.
\<close>

definition passport_authenticate_callback ::
    "nat \<Rightarrow> string \<Rightarrow> error + profile \<Rightarrow> string \<Rightarrow> middleware" where
  "passport_authenticate_callback now h exchange failureRedirect req s =
     (case exchange of
        Inl e \<Rightarrow> (Respond (Redirect failureRedirect), s)
      | Inr p \<Rightarrow>
          (case verify now p s of
             (Inl e, s') \<Rightarrow> (Unhandled e, s')
           | (Inr (Done (Some e) _), s') \<Rightarrow> (NextErr e, s')
           | (Inr (Done None None), s') \<Rightarrow> (Respond (Redirect failureRedirect), s')
           | (Inr (Done None (Some u)), s') \<Rightarrow>
               (case serializeUser u of
                  Done (Some e) _ \<Rightarrow> (NextErr e, s')
                | Done None None \<Rightarrow>
                    (NextErr \<lparr>message = ''Failed to serialize user into session'',
                              stack = ''Error: Failed to serialize user into session''\<rparr>, s')
                | Done None (Some i) \<Rightarrow>
                    (Next (req\<lparr>cookie := Some h, user := Some u\<rparr>), issue h i now s'))))"

text \<open>
  \<^verbatim>\<open>router.get('/google/callback', passport.authenticate('google', {failureRedirect: '/login-failed'}), handler)\<close>,
  whose handler redirects to \<^verbatim>\<open>/dashboard\<close>.
\<close>

definition auth_google_callback :: "nat \<Rightarrow> string \<Rightarrow> error + profile \<Rightarrow> middleware list" where
  "auth_google_callback now h exchange =
     [passport_authenticate_callback now h exchange ''/login-failed'',
      pure_mw (\<lambda>req. Respond (Redirect ''/dashboard''))]"

text \<open>
  Modelled from the spec: \<^verbatim>\<open>req.logout(callback)\<close> (Passport), the Session Manager's
  \<open>revoke\<close>: it detaches the account and deletes the binding of the request's handle,
  whether or not there is one. \<open>io\<close> is the error the session store reports, if any;
  it is handed to the callback.
\<close>

definition req_logout :: "error option \<Rightarrow> request \<Rightarrow> state \<Rightarrow> error option \<times> request \<times> state" where
  "req_logout io req s =
     (case io of
        Some e \<Rightarrow> (Some e, req, s)
      | None \<Rightarrow> (None, req\<lparr>user := None\<rparr>, revoke (cookie req) s))"

text \<open>The two responses of the logout handler.\<close>

definition logout_failed :: response where
  "logout_failed =
     Json 500 (JObj [(''success'', JBool False), (''message'', JStr ''Error logging out'')])"

definition logged_out :: response where
  "logged_out =
     Json 200 (JObj [(''success'', JBool True), (''message'', JStr ''Logged out successfully'')])"

text \<open>The handler of \<^verbatim>\<open>router.get('/logout', ...)\<close>.\<close>

definition logout :: "error option \<Rightarrow> middleware" where
  "logout io req s =
     (case req_logout io req s of
        (Some err, req', s') \<Rightarrow> (Respond logout_failed, s')
      | (None, req', s') \<Rightarrow> (Respond logged_out, s'))"

text \<open>\<^verbatim>\<open>router.get('/logout', handler)\<close>\<close>

definition auth_logout :: "error option \<Rightarrow> middleware list" where
  "auth_logout io = [logout io]"

section \<open>The task routes (routes/tasks.js)\<close>

text \<open>
  \<^verbatim>\<open>router.use(ensureAuthenticated)\<close> comes before every task route: the guard, then
  the route's handler.
\<close>

definition tasks_router :: "middleware \<Rightarrow> middleware list" where
  "tasks_router handler = [pure_mw ensureAuthenticated, handler]"

text \<open>
  The application: the session middleware of \<^verbatim>\<open>server.js\<close> runs before the routes
  mounted under \<^verbatim>\<open>/auth\<close> and \<^verbatim>\<open>/api/tasks\<close>.
\<close>

definition app :: "nat \<Rightarrow> middleware list \<Rightarrow> request \<Rightarrow> state \<Rightarrow> outcome \<times> state" where
  "app now route req s = run (passport_session now # route) req s"

section \<open>The task controller\<close>

text \<open>
  \<^verbatim>\<open>controllers/taskController.js\<close> is required by \<^verbatim>\<open>routes/tasks.js\<close> and is not
  among the sources: the handlers of this section follow the spec's Task Resource
  Handlers. The responses follow the envelope \<^verbatim>\<open>{success, message?, data?, count?}\<close>:
  400 for a validation error or a malformed id, 404 for a task that is absent or not
  owned, 500 for an unexpected failure (no account in the request context, or the
  store unreachable).
\<close>

text \<open>Modelled from the spec: the name of a status, as the JSON carries it.\<close>

definition status_string :: "task_status \<Rightarrow> string" where
  "status_string st =
     (case st of Pending \<Rightarrow> ''pending'' | InProgress \<Rightarrow> ''in-progress''
      | Completed \<Rightarrow> ''completed'')"

text \<open>Modelled from the spec: the status a name stands for, if any.\<close>

definition parse_status :: "string \<Rightarrow> task_status option" where
  "parse_status x =
     (if x = ''pending'' then Some Pending
      else if x = ''in-progress'' then Some InProgress
      else if x = ''completed'' then Some Completed
      else None)"

text \<open>Modelled from the spec: the representation of a task in a response.\<close>

definition task_json :: "task \<Rightarrow> json" where
  "task_json t =
     JObj [(''_id'', JNum (task_id t)),
           (''title'', JStr (title t)),
           (''description'', JStr (description t)),
           (''status'', JStr (status_string (status t))),
           (''dueDate'', JStr (dueDate t)),
           (''userId'', JNum (userId t)),
           (''createdAt'', JNum (task_createdAt t))]"

text \<open>Modelled from the spec: NotFound, for a task that is absent or not owned.\<close>

definition not_found :: response where
  "not_found = Json 404 (JObj [(''success'', JBool False), (''message'', JStr ''Task not found'')])"

text \<open>Modelled from the spec: the response to a validation error or a malformed id.\<close>

definition bad_request :: "string \<Rightarrow> response" where
  "bad_request m = Json 400 (JObj [(''success'', JBool False), (''message'', JStr m)])"

text \<open>Modelled from the spec: the response to an unexpected failure.\<close>

definition internal_error :: response where
  "internal_error = Json 500 (JObj [(''success'', JBool False), (''message'', JStr ''Server error'')])"

text \<open>
  Modelled from the spec: the ownership-or-NotFound rule, expressed once. A task is
  fetched by id and is there for the requester only if the requester owns it.
\<close>

definition find_owned :: "user_doc \<Rightarrow> nat \<Rightarrow> state \<Rightarrow> task option" where
  "find_owned a i s =
     (case find (\<lambda>t. task_id t = i) (tasks s) of
        None \<Rightarrow> None
      | Some t \<Rightarrow> if userId t = oid a then Some t else None)"

text \<open>
  Modelled from the spec: the title is non-empty and at most 100 characters (the bound
  of the route documentation).
\<close>

definition valid_title :: "string \<Rightarrow> bool" where
  "valid_title x = (x \<noteq> [] \<and> length x \<le> 100)"

text \<open>
  Modelled from the spec: the description is non-empty and at most 500 characters (the
  bound of the route documentation).
\<close>

definition valid_description :: "string \<Rightarrow> bool" where
  "valid_description x = (x \<noteq> [] \<and> length x \<le> 500)"

text \<open>Modelled from the spec: the due date is non-empty.\<close>

definition valid_dueDate :: "string \<Rightarrow> bool" where
  "valid_dueDate x = (x \<noteq> [])"

text \<open>
  Modelled from the spec: every field present in the request is valid; a status is
  one of the three names.
\<close>

definition valid_present :: "task_input \<Rightarrow> bool" where
  "valid_present inp =
     ((case in_title inp of None \<Rightarrow> True | Some x \<Rightarrow> valid_title x) \<and>
      (case in_description inp of None \<Rightarrow> True | Some x \<Rightarrow> valid_description x) \<and>
      (case in_status inp of None \<Rightarrow> True | Some x \<Rightarrow> parse_status x \<noteq> None) \<and>
      (case in_dueDate inp of None \<Rightarrow> True | Some x \<Rightarrow> valid_dueDate x))"

text \<open>
  Modelled from the spec: a partial update applies only the fields present in the
  request.
\<close>

definition apply_input :: "task_input \<Rightarrow> task \<Rightarrow> task" where
  "apply_input inp t =
     t\<lparr>title := (case in_title inp of None \<Rightarrow> title t | Some x \<Rightarrow> x),
       description := (case in_description inp of None \<Rightarrow> description t | Some x \<Rightarrow> x),
       status := (case in_status inp of
                    None \<Rightarrow> status t
                  | Some x \<Rightarrow> (case parse_status x of None \<Rightarrow> status t | Some st \<Rightarrow> st)),
       dueDate := (case in_dueDate inp of None \<Rightarrow> dueDate t | Some x \<Rightarrow> x)\<rparr>"

text \<open>Modelled from the spec: a system-generated id, one no stored task has.\<close>

definition fresh_task_id :: "task list \<Rightarrow> nat" where
  "fresh_task_id ts = Suc (foldr max (map task_id ts) 0)"

text \<open>Modelled from the spec: List returns all tasks whose owner is the requester.\<close>

definition getAllTasks :: middleware where
  "getAllTasks req s =
     (case user req of
        None \<Rightarrow> (Respond internal_error, s)
      | Some a \<Rightarrow>
          if \<not> db_connected s then (Respond internal_error, s)
          else
            let ts = filter (\<lambda>t. userId t = oid a) (tasks s)
            in (Respond (Json 200 (JObj [(''success'', JBool True),
                                         (''count'', JNum (length ts)),
                                         (''data'', JArr (map task_json ts))])), s))"

text \<open>
  Modelled from the spec: Get by id fetches by id and fails with NotFound if the task
  is absent or owned by another account.
\<close>

definition getTaskById :: middleware where
  "getTaskById req s =
     (case user req of
        None \<Rightarrow> (Respond internal_error, s)
      | Some a \<Rightarrow>
          (case param_id req of
             None \<Rightarrow> (Respond (bad_request ''Invalid task ID format''), s)
           | Some i \<Rightarrow>
               if \<not> db_connected s then (Respond internal_error, s)
               else
                 (case find_owned a i s of
                    None \<Rightarrow> (Respond not_found, s)
                  | Some t \<Rightarrow>
                      (Respond (Json 200 (JObj [(''success'', JBool True),
                                                (''data'', task_json t)])), s))))"

text \<open>
  Modelled from the spec: Create validates the required fields, defaults the status to
  pending, and persists the task with the requester as owner.
\<close>

definition createTask :: "nat \<Rightarrow> middleware" where
  "createTask now req s =
     (case user req of
        None \<Rightarrow> (Respond internal_error, s)
      | Some a \<Rightarrow>
          (case (in_title (body req), in_description (body req), in_dueDate (body req)) of
             (Some ti, Some de, Some du) \<Rightarrow>
               if \<not> valid_present (body req)
               then (Respond (bad_request ''Validation error''), s)
               else if \<not> db_connected s then (Respond internal_error, s)
               else
                 let t = apply_input (body req)
                           \<lparr>task_id = fresh_task_id (tasks s), title = ti, description = de,
                            status = Pending, dueDate = du, userId = oid a,
                            task_createdAt = now\<rparr>
                 in (Respond (Json 201 (JObj [(''success'', JBool True),
                                              (''message'', JStr ''Task created successfully''),
                                              (''data'', task_json t)])),
                     s\<lparr>tasks := tasks s @ [t],
                       writes := writes s @ [TaskInsert (task_id t)]\<rparr>)
           | _ \<Rightarrow> (Respond (bad_request ''Validation error''), s)))"

text \<open>
  Modelled from the spec: Update fetches under the ownership-or-NotFound rule, applies
  only the fields present, re-validates them, persists, and returns the updated task.
\<close>

definition updateTask :: middleware where
  "updateTask req s =
     (case user req of
        None \<Rightarrow> (Respond internal_error, s)
      | Some a \<Rightarrow>
          (case param_id req of
             None \<Rightarrow> (Respond (bad_request ''Invalid task ID format''), s)
           | Some i \<Rightarrow>
               if \<not> db_connected s then (Respond internal_error, s)
               else
                 (case find_owned a i s of
                    None \<Rightarrow> (Respond not_found, s)
                  | Some t \<Rightarrow>
                      if \<not> valid_present (body req)
                      then (Respond (bad_request ''Validation error''), s)
                      else
                        let t' = apply_input (body req) t
                        in (Respond (Json 200 (JObj [(''success'', JBool True),
                                                     (''message'', JStr ''Task updated successfully''),
                                                     (''data'', task_json t')])),
                            s\<lparr>tasks := map (\<lambda>x. if task_id x = i then t' else x) (tasks s),
                              writes := writes s @ [TaskUpdate i]\<rparr>))))"

text \<open>
  Modelled from the spec: Delete fetches under the same rule, removes the task, and
  returns its prior representation.
\<close>

definition deleteTask :: middleware where
  "deleteTask req s =
     (case user req of
        None \<Rightarrow> (Respond internal_error, s)
      | Some a \<Rightarrow>
          (case param_id req of
             None \<Rightarrow> (Respond (bad_request ''Invalid task ID format''), s)
           | Some i \<Rightarrow>
               if \<not> db_connected s then (Respond internal_error, s)
               else
                 (case find_owned a i s of
                    None \<Rightarrow> (Respond not_found, s)
                  | Some t \<Rightarrow>
                      (Respond (Json 200 (JObj [(''success'', JBool True),
                                                (''message'', JStr ''Task deleted successfully''),
                                                (''data'', task_json t)])),
                       s\<lparr>tasks := filter (\<lambda>x. task_id x \<noteq> i) (tasks s),
                         writes := writes s @ [TaskDelete i]\<rparr>))))"

section \<open>Predicates of the claims\<close>

text \<open>
  An invalid session, cause by cause: the request carries no handle, or its handle has
  no binding (absent); the binding is expired; or the bound account id matches no
  account of the store, which answers the lookup (unresolvable).
\<close>

definition session_invalid :: "nat \<Rightarrow> request \<Rightarrow> state \<Rightarrow> bool" where
  "session_invalid now req s =
     (case cookie req of
        None \<Rightarrow> True
      | Some k \<Rightarrow>
          (case map_of (sessions s) k of
             None \<Rightarrow> True
           | Some b \<Rightarrow>
               expiresAt b \<le> now \<or>
               (db_connected s \<and> find (\<lambda>u. oid u = accountId b) (users s) = None)))"

text \<open>
  A profile the verify callback cannot build an account from: \<^verbatim>\<open>emails\<close> or
  \<^verbatim>\<open>photos\<close> is missing or empty, or \<^verbatim>\<open>name\<close> is missing, so that one of the field
  accesses throws.
\<close>

definition missing_field :: "profile \<Rightarrow> bool" where
  "missing_field p =
     (emails p = None \<or> emails p = Some [] \<or> profile_name p = None \<or>
      photos p = None \<or> photos p = Some [])"



text \<open>
  What the verify callback returns when its \<^verbatim>\<open>catch\<close> block ran on the error \<open>e\<close>:
  \<^verbatim>\<open>done(e, null)\<close>, and the state as it was but for the line printed. Nothing is
  written.
\<close>

definition reported :: "error \<Rightarrow> state \<Rightarrow> (error + user_doc done_call) \<times> state" where
  "reported e s =
     (Inr (Done (Some e) None),
      s\<lparr>console := console s @ [''Error in Google Strategye: '' @ stack e]\<rparr>)"

section \<open>Sample data\<close>

text \<open>
  Two accounts, one task owned by the first, and three session bindings: one for each
  account and one whose account id matches no account.
\<close>

definition alice :: user_doc where
  "alice = \<lparr>oid = 1, googleId = ''g-1'', email = ''a@x.com'', displayName = ''Alice'',
            firstName = Some ''Alice'', lastName = None, picture = None,
            createdAt = 5, lastLogin = 5\<rparr>"

definition bob :: user_doc where
  "bob = \<lparr>oid = 2, googleId = ''g-2'', email = ''b@x.com'', displayName = ''Bob'',
          firstName = None, lastName = None, picture = None,
          createdAt = 6, lastLogin = 6\<rparr>"

definition task1 :: task where
  "task1 = \<lparr>task_id = 7, title = ''T1'', description = ''D'', status = Pending,
            dueDate = ''2025-12-01'', userId = 1, task_createdAt = 8\<rparr>"

definition st0 :: state where
  "st0 = \<lparr>users = [alice, bob], tasks = [task1], writes = [], db_connected = True,
          sessions = [(''sa'', \<lparr>accountId = 1, expiresAt = 100\<rparr>),
                      (''sb'', \<lparr>accountId = 2, expiresAt = 100\<rparr>),
                      (''sx'', \<lparr>accountId = 9, expiresAt = 100\<rparr>)],
          console = []\<rparr>"

definition no_input :: task_input where
  "no_input = \<lparr>in_title = None, in_description = None, in_status = None, in_dueDate = None\<rparr>"

definition request_of :: "string option \<Rightarrow> nat option \<Rightarrow> request" where
  "request_of h i = \<lparr>cookie = h, user = None, param_id = i, body = no_input\<rparr>"

text \<open>
  Profiles: a returning subject, a new subject whose email an account already holds,
  a new subject with a new email, and a new subject whose profile has no emails.
\<close>

definition profile_alice :: profile where
  "profile_alice = \<lparr>profile_id = ''g-1'', emails = Some [''a@x.com''],
                    profile_displayName = Some ''Alice'',
                    profile_name = Some \<lparr>givenName = Some ''Alice'', familyName = None\<rparr>,
                    photos = Some [''a.png'']\<rparr>"


definition profile_carol :: profile where
  "profile_carol = \<lparr>profile_id = ''g-3'', emails = Some [''c@x.com''],
                    profile_displayName = Some ''Carol'',
                    profile_name = Some \<lparr>givenName = Some ''Carol'', familyName = None\<rparr>,
                    photos = Some [''c.png'']\<rparr>"

definition profile_malformed :: profile where
  "profile_malformed = \<lparr>profile_id = ''g-4'', emails = None,
                        profile_displayName = Some ''Dan'',
                        profile_name = None, photos = None\<rparr>"

text \<open>A new subject with a new email whose profile has no photo.\<close>

definition profile_nophoto :: profile where
  "profile_nophoto = \<lparr>profile_id = ''g-5'', emails = Some [''e@x.com''],
                      profile_displayName = Some ''Eve'',
                      profile_name = Some \<lparr>givenName = Some ''Eve'', familyName = None\<rparr>,
                      photos = None\<rparr>"

definition prod_env :: env where
  "prod_env = \<lparr>NODE_ENV = Some ''production'', SESSION_SECRET = None\<rparr>"

section \<open>Facts about the sample data and the chain\<close>

lemma validate_st0_sa: "validate 50 (Some ''sa'') st0 = Valid alice"
  by (simp add: validate_def st0_def deserializeUser_def findById_def alice_def bob_def)

lemma validate_st0_sb: "validate 50 (Some ''sb'') st0 = Valid bob"
  by (simp add: validate_def st0_def deserializeUser_def findById_def alice_def bob_def)

lemma validate_st0_none: "validate 50 None st0 = Invalid"
  by (simp add: validate_def)

lemma app_invalid:
  "validate now (cookie req) s = Invalid \<Longrightarrow>
   app now (tasks_router h) req s = (Respond auth_required, s)"
  by (simp add: app_def tasks_router_def passport_session_def pure_mw_def
      ensureAuthenticated_def isAuthenticated_def)

lemma app_valid:
  "validate now (cookie req) s = Valid u \<Longrightarrow>
   app now (tasks_router h) req s = run [h] (req\<lparr>user := Some u\<rparr>) s"
  by (simp add: app_def tasks_router_def passport_session_def pure_mw_def
      ensureAuthenticated_def isAuthenticated_def)

lemma validate_not_failed:
  "db_connected s \<Longrightarrow> validate now h s \<noteq> Failed e"
  by (auto simp: validate_def deserializeUser_def findById_def split: option.splits)

lemma passport_session_cases:
  "(\<exists>req'. passport_session now req s = (Next req', s)) \<or>
   (\<exists>e. passport_session now req s = (NextErr e, s))"
  by (cases "validate now (cookie req) s") (simp_all add: passport_session_def)

lemma passport_session_connected:
  assumes "db_connected s"
  shows "\<exists>req'. passport_session now req s = (Next req', s)"
proof (cases "validate now (cookie req) s")
  case (Failed e)
  with validate_not_failed [OF assms, of now "cookie req" e] show ?thesis by simp
qed (simp_all add: passport_session_def)

section \<open>The authorization guard\<close>

lemma session_invalid_validate:
  "session_invalid now req s \<longleftrightarrow> validate now (cookie req) s = Invalid"
  by (auto simp: session_invalid_def validate_def deserializeUser_def findById_def
      split: option.splits)

text \<open>
  Claim C2. On a protected task route, a request whose session is invalid (no handle,
  no binding, an expired binding, or a binding that resolves to no account) is answered
  401 with the message and \<^verbatim>\<open>redirectTo: '/auth/google'\<close>, whatever the handler is and
  with the state untouched: the handler does not run. A request whose session is valid
  reaches the handler with the resolved account as \<^verbatim>\<open>req.user\<close>. The guard itself
  decides on \<^verbatim>\<open>req.user\<close> alone.
\<close>

theorem guard_rejects_or_invokes:
  "ensureAuthenticated req =
     (if user req = None
      then Respond (Json 401 (JObj [(''success'', JBool False),
             (''message'', JStr ''Authentication required. Please login first.''),
             (''redirectTo'', JStr ''/auth/google'')]))
      else Next req) \<and>
   (session_invalid now req s \<longrightarrow>
      app now (tasks_router h) req s =
        (Respond (Json 401 (JObj [(''success'', JBool False),
           (''message'', JStr ''Authentication required. Please login first.''),
           (''redirectTo'', JStr ''/auth/google'')])), s)) \<and>
   (validate now (cookie req) s = Valid u \<longrightarrow>
      app now (tasks_router h) req s = run [h] (req\<lparr>user := Some u\<rparr>) s)"
  using app_invalid [of now req s h] app_valid [of now req s u h]
  by (simp add: ensureAuthenticated_def isAuthenticated_def auth_required_def
      session_invalid_validate)

theorem guard_rejects_or_invokes_witness:
  "session_invalid 50 (request_of None (Some 7)) st0 \<and>
   app 50 (tasks_router deleteTask) (request_of None (Some 7)) st0 =
     (Respond (Json 401 (JObj [(''success'', JBool False),
        (''message'', JStr ''Authentication required. Please login first.''),
        (''redirectTo'', JStr ''/auth/google'')])), st0) \<and>
   session_invalid 500 (request_of (Some ''sa'') (Some 7)) st0 \<and>
   app 500 (tasks_router deleteTask) (request_of (Some ''sa'') (Some 7)) st0 =
     (Respond (Json 401 (JObj [(''success'', JBool False),
        (''message'', JStr ''Authentication required. Please login first.''),
        (''redirectTo'', JStr ''/auth/google'')])), st0) \<and>
   validate 50 (cookie (request_of (Some ''sb'') (Some 7))) st0 = Valid bob \<and>
   app 50 (tasks_router deleteTask) (request_of (Some ''sb'') (Some 7)) st0 =
     run [deleteTask] ((request_of (Some ''sb'') (Some 7))\<lparr>user := Some bob\<rparr>) st0"
proof -
  have i: "session_invalid 50 (request_of None (Some 7)) st0"
    by (simp add: session_invalid_def request_of_def)
  have x: "session_invalid 500 (request_of (Some ''sa'') (Some 7)) st0"
    by (simp add: session_invalid_def request_of_def st0_def)
  have v: "validate 50 (cookie (request_of (Some ''sb'') (Some 7))) st0 = Valid bob"
    by (simp add: request_of_def validate_st0_sb)
  from guard_rejects_or_invokes [of "request_of None (Some 7)" 50 st0 deleteTask] i
  have a: "app 50 (tasks_router deleteTask) (request_of None (Some 7)) st0 =
     (Respond (Json 401 (JObj [(''success'', JBool False),
        (''message'', JStr ''Authentication required. Please login first.''),
        (''redirectTo'', JStr ''/auth/google'')])), st0)"
    by blast
  from guard_rejects_or_invokes [of "request_of (Some ''sa'') (Some 7)" 500 st0 deleteTask] x
  have c: "app 500 (tasks_router deleteTask) (request_of (Some ''sa'') (Some 7)) st0 =
     (Respond (Json 401 (JObj [(''success'', JBool False),
        (''message'', JStr ''Authentication required. Please login first.''),
        (''redirectTo'', JStr ''/auth/google'')])), st0)"
    by blast
  from guard_rejects_or_invokes [of "request_of (Some ''sb'') (Some 7)" 50 st0 deleteTask bob] v
  have b: "app 50 (tasks_router deleteTask) (request_of (Some ''sb'') (Some 7)) st0 =
     run [deleteTask] ((request_of (Some ''sb'') (Some 7))\<lparr>user := Some bob\<rparr>) st0"
    by blast
  from i x v a b c show ?thesis by blast
qed

section \<open>A session bound to a missing account\<close>

lemma deserialize_missing:
  "db_connected s \<Longrightarrow> find (\<lambda>u. oid u = i) (users s) = None \<Longrightarrow>
   deserializeUser i s = Done None None"
  by (simp add: deserializeUser_def findById_def)

lemma validate_missing:
  "map_of (sessions s) k = Some b \<Longrightarrow> db_connected s \<Longrightarrow>
   find (\<lambda>u. oid u = accountId b) (users s) = None \<Longrightarrow>
   validate now (Some k) s = Invalid"
  by (simp add: validate_def deserialize_missing)

text \<open>
  Claim C5. A request carries the handle of a live session binding whose account id
  matches no account of the store (the store answers the lookup). Then
  \<^verbatim>\<open>deserializeUser\<close> calls \<^verbatim>\<open>done(null, null)\<close>, validation treats the request as
  unauthenticated, and every task route answers 401 without running its handler: the
  response and the state are the same for every handler.
\<close>

theorem missing_account_unauthenticated:
  "cookie req = Some k \<and> map_of (sessions s) k = Some b \<and> now < expiresAt b \<and>
   db_connected s \<and> find (\<lambda>u. oid u = accountId b) (users s) = None \<longrightarrow>
   deserializeUser (accountId b) s = Done None None \<and>
   validate now (cookie req) s = Invalid \<and>
   app now (tasks_router h) req s = (Respond auth_required, s)"
  using app_invalid [of now req s h] validate_missing [of s k b now]
  by (simp add: deserialize_missing)

theorem missing_account_unauthenticated_witness:
  "cookie (request_of (Some ''sx'') (Some 7)) = Some ''sx'' \<and>
   map_of (sessions st0) ''sx'' = Some \<lparr>accountId = 9, expiresAt = 100\<rparr> \<and>
   (50::nat) < expiresAt \<lparr>accountId = 9, expiresAt = 100\<rparr> \<and>
   db_connected st0 \<and>
   find (\<lambda>u. oid u = accountId \<lparr>accountId = 9, expiresAt = 100\<rparr>) (users st0) = None \<and>
   deserializeUser 9 st0 = Done None None \<and>
   validate 50 (Some ''sx'') st0 = Invalid \<and>
   app 50 (tasks_router deleteTask) (request_of (Some ''sx'') (Some 7)) st0 =
     (Respond auth_required, st0)"
proof -
  have h: "cookie (request_of (Some ''sx'') (Some 7)) = Some ''sx'' \<and>
    map_of (sessions st0) ''sx'' = Some \<lparr>accountId = 9, expiresAt = 100\<rparr> \<and>
    (50::nat) < expiresAt \<lparr>accountId = 9, expiresAt = 100\<rparr> \<and>
    db_connected st0 \<and>
    find (\<lambda>u. oid u = accountId \<lparr>accountId = 9, expiresAt = 100\<rparr>) (users st0) = None"
    by (simp add: request_of_def st0_def alice_def bob_def)
  from missing_account_unauthenticated
    [of "request_of (Some ''sx'') (Some 7)" "''sx''" st0 "\<lparr>accountId = 9, expiresAt = 100\<rparr>"
        50 deleteTask] h
  show ?thesis by simp
qed

section \<open>The guest gate and the login route\<close>

text \<open>
  Claim C6, as the code has it. \<^verbatim>\<open>ensureGuest\<close> redirects a request with an account
  attached to \<^verbatim>\<open>/dashboard\<close> and lets any other request pass, so a route that applies
  it sends an authenticated principal to the landing area. The login route
  \<^verbatim>\<open>GET /auth/google\<close> does not apply it: its chain is \<^verbatim>\<open>passport.authenticate\<close> alone,
  and an authenticated principal is redirected to the provider like anyone else.
\<close>

theorem guest_gate_and_login_route:
  "ensureGuest req =
     (if user req \<noteq> None then Respond (Redirect ''/dashboard'') else Next req) \<and>
   (validate now (cookie req) s = Valid u \<longrightarrow>
      app now (pure_mw ensureGuest # route) req s = (Respond (Redirect ''/dashboard''), s) \<and>
      app now auth_google req s = (Respond (ProviderRedirect [''profile'', ''email'']), s))"
  by (simp add: ensureGuest_def isAuthenticated_def app_def passport_session_def pure_mw_def
      auth_google_def passport_authenticate_begin_def)

theorem guest_gate_and_login_route_witness:
  "validate 50 (cookie (request_of (Some ''sa'') None)) st0 = Valid alice \<and>
   app 50 (pure_mw ensureGuest # auth_google) (request_of (Some ''sa'') None) st0 =
     (Respond (Redirect ''/dashboard''), st0) \<and>
   app 50 auth_google (request_of (Some ''sa'') None) st0 =
     (Respond (ProviderRedirect [''profile'', ''email'']), st0)"
proof -
  have v: "validate 50 (cookie (request_of (Some ''sa'') None)) st0 = Valid alice"
    by (simp add: request_of_def validate_st0_sa)
  from guest_gate_and_login_route
    [of "request_of (Some ''sa'') None" 50 st0 alice auth_google] v
  show ?thesis by simp
qed

text \<open>
  The claim as stated fails: the request below carries the handle of Alice's valid
  session, and \<^verbatim>\<open>GET /auth/google\<close> answers it with the redirect to the provider, not
  with the redirect to \<^verbatim>\<open>/dashboard\<close>.
\<close>

theorem login_route_authenticated_counterexample:
  "validate 50 (cookie (request_of (Some ''sa'') None)) st0 = Valid alice \<and>
   fst (app 50 auth_google (request_of (Some ''sa'') None) st0) =
     Respond (ProviderRedirect [''profile'', ''email'']) \<and>
   fst (app 50 auth_google (request_of (Some ''sa'') None) st0) \<noteq>
     Respond (Redirect ''/dashboard'')"
  by (simp add: request_of_def validate_st0_sa app_def passport_session_def
      auth_google_def passport_authenticate_begin_def)

section \<open>The session cookie\<close>

text \<open>
  Claim C7, as the code has it. In every environment the session cookie is configured
  with \<^verbatim>\<open>httpOnly\<close> true, \<^verbatim>\<open>secure\<close> true exactly when \<^verbatim>\<open>NODE_ENV\<close> is
  \<^verbatim>\<open>production\<close>, \<^verbatim>\<open>sameSite\<close> \<^verbatim>\<open>none\<close> in production and \<^verbatim>\<open>lax\<close> otherwise, and the
  constant \<^verbatim>\<open>maxAge\<close> of 86400000 ms; the session options hold this cookie and do not
  set \<^verbatim>\<open>rolling\<close>.
\<close>

theorem session_cookie_attributes:
  "map_of (session_cookie e) ''httpOnly'' = Some (JBool True) \<and>
   map_of (session_cookie e) ''secure'' = Some (JBool (NODE_ENV e = Some ''production'')) \<and>
   map_of (session_cookie e) ''sameSite'' =
     Some (JStr (if NODE_ENV e = Some ''production'' then ''none'' else ''lax'')) \<and>
   map_of (session_cookie e) ''maxAge'' = Some (JNum 86400000) \<and>
   map_of (session_options e) ''cookie'' = Some (JObj (session_cookie e)) \<and>
   map_of (session_options e) ''rolling'' = None"
  by (simp add: session_cookie_def session_options_def cookie_maxAge_def)

text \<open>
  The claim as stated fails: in production \<^verbatim>\<open>sameSite\<close> is \<^verbatim>\<open>none\<close>, not
  \<^verbatim>\<open>strict\<close>.
\<close>

theorem session_cookie_sameSite_production:
  "map_of (session_cookie prod_env) ''sameSite'' = Some (JStr ''none'') \<and>
   map_of (session_cookie prod_env) ''sameSite'' \<noteq> Some (JStr ''strict'')"
  by (simp add: session_cookie_def prod_env_def)

section \<open>Logout\<close>

lemma map_of_filter_out: "map_of (filter (\<lambda>kb. fst kb \<noteq> k) xs) k = None"
  by (induction xs) auto

lemma validate_revoke: "validate now h (revoke h s) = Invalid"
  by (cases h) (simp_all add: validate_def revoke_def map_of_filter_out)

lemma revoke_idem: "revoke h (revoke h s) = revoke h s"
  by (cases h) (simp_all add: revoke_def)

lemma app_logout:
  assumes "db_connected s"
  shows "app now (auth_logout None) req s = (Respond logged_out, revoke (cookie req) s)"
proof (cases "validate now (cookie req) s")
  case (Failed e)
  with validate_not_failed [OF assms, of now "cookie req" e] show ?thesis by simp
qed (simp_all add: app_def auth_logout_def passport_session_def logout_def req_logout_def)

text \<open>
  Claim C8. When \<^verbatim>\<open>req.logout\<close> reports no error, the logout handler answers with the
  success acknowledgment and leaves the state with the binding of the request's handle
  revoked, whether the request had a handle, and whether the handle had a binding. The
  handle is invalid afterwards, and revoking twice is revoking once. Through the whole
  chain, with the store reachable, \<^verbatim>\<open>GET /auth/logout\<close> gives the acknowledgment, and
  gives it again with the same state when repeated on the revoked session.
\<close>

theorem logout_acknowledged_idempotent:
  "logout None req s =
     (Respond (Json 200 (JObj [(''success'', JBool True),
                               (''message'', JStr ''Logged out successfully'')])),
      revoke (cookie req) s) \<and>
   validate now (cookie req) (revoke (cookie req) s) = Invalid \<and>
   revoke (cookie req) (revoke (cookie req) s) = revoke (cookie req) s \<and>
   (db_connected s \<longrightarrow>
      app now (auth_logout None) req s =
        (Respond (Json 200 (JObj [(''success'', JBool True),
                                  (''message'', JStr ''Logged out successfully'')])),
         revoke (cookie req) s) \<and>
      app now (auth_logout None) req (revoke (cookie req) s) =
        (Respond (Json 200 (JObj [(''success'', JBool True),
                                  (''message'', JStr ''Logged out successfully'')])),
         revoke (cookie req) s))"
  using app_logout [of s now req] app_logout [of "revoke (cookie req) s" now req]
  by (simp add: logout_def req_logout_def logged_out_def validate_revoke revoke_idem)
     (cases "cookie req"; simp add: revoke_def)

theorem logout_acknowledged_idempotent_witness:
  "db_connected st0 \<and>
   app 50 (auth_logout None) (request_of (Some ''sa'') None) st0 =
     (Respond (Json 200 (JObj [(''success'', JBool True),
                               (''message'', JStr ''Logged out successfully'')])),
      revoke (Some ''sa'') st0) \<and>
   app 50 (auth_logout None) (request_of (Some ''sa'') None) (revoke (Some ''sa'') st0) =
     (Respond (Json 200 (JObj [(''success'', JBool True),
                               (''message'', JStr ''Logged out successfully'')])),
      revoke (Some ''sa'') st0) \<and>
   app 50 (auth_logout None) (request_of None None) st0 =
     (Respond (Json 200 (JObj [(''success'', JBool True),
                               (''message'', JStr ''Logged out successfully'')])), st0)"
proof -
  have c: "db_connected st0" by (simp add: st0_def)
  have r: "revoke None st0 = st0" by (simp add: revoke_def)
  from logout_acknowledged_idempotent [of "request_of (Some ''sa'') None" st0 50]
       logout_acknowledged_idempotent [of "request_of None None" st0 50] c r
  show ?thesis by (simp add: request_of_def)
qed

section \<open>The error handler\<close>

text \<open>
  Claim C9, as the code has it. For every error that reaches it, the error handler
  prints \<^verbatim>\<open>err.stack\<close> on the server's console and answers 500 with the generic
  message and, in the field \<^verbatim>\<open>error\<close>, the error's own \<^verbatim>\<open>err.message\<close>; the stack is
  not part of the body. A middleware that calls \<^verbatim>\<open>next(err)\<close> ends the chain with
  this response.
\<close>

theorem error_handler_response:
  "error_handler err s =
     (Json 500 (JObj [(''success'', JBool False),
                      (''message'', JStr ''Something went wrong!''),
                      (''error'', JStr (message err))]),
      s\<lparr>console := console s @ [stack err]\<rparr>) \<and>
   run ((\<lambda>req s. (NextErr err, s)) # ms) req s =
     (Respond (Json 500 (JObj [(''success'', JBool False),
                               (''message'', JStr ''Something went wrong!''),
                               (''error'', JStr (message err))])),
      s\<lparr>console := console s @ [stack err]\<rparr>)"
  by (simp add: error_handler_def)

text \<open>
  The claim as stated fails: for a duplicate-key error of the store the body carries
  the error's message, so it is not the generic message only.
\<close>

theorem error_handler_sends_detail:
  "fst (error_handler (MongoServerError ''E11000 duplicate key error'') st0) =
     Json 500 (JObj [(''success'', JBool False),
                     (''message'', JStr ''Something went wrong!''),
                     (''error'', JStr ''E11000 duplicate key error'')]) \<and>
   fst (error_handler (MongoServerError ''E11000 duplicate key error'') st0) \<noteq>
     Json 500 (JObj [(''success'', JBool False),
                     (''message'', JStr ''Something went wrong!'')])"
  by (simp add: error_handler_def MongoServerError_def)

section \<open>What the verify callback reports\<close>

lemma verify_never_escapes: "fst (verify now p s) \<noteq> Inl e"
  by (simp add: verify_def split: sum.splits prod.splits)

lemma verify_thrown: "verify_body now p s = Inl e \<Longrightarrow> verify now p s = reported e s"
  by (simp add: verify_def reported_def)

lemma verify_down: "\<not> db_connected s \<Longrightarrow> verify now p s = reported db_down s"
  by (simp add: verify_thrown verify_body_def findOne_googleId_def)

lemma verify_body_new:
  "db_connected s \<Longrightarrow> find (\<lambda>v. googleId v = profile_id p) (users s) = None \<Longrightarrow>
   verify_body now p s =
     (case new_user_fields p of
        Inl e \<Rightarrow> Inl e
      | Inr f \<Rightarrow>
          (case create now f s of
             Inl e \<Rightarrow> Inl e
           | Inr (a, s') \<Rightarrow> Inr (Done None (Some a), s')))"
  by (simp add: verify_body_def findOne_googleId_def)

lemma verify_field_errors:
  assumes "db_connected s" "find (\<lambda>v. googleId v = profile_id p) (users s) = None"
  shows "emails p = None \<Longrightarrow>
      verify now p s =
        reported (TypeError ''Cannot read properties of undefined (reading '0')'') s"
    and "emails p = Some [] \<Longrightarrow>
      verify now p s =
        reported (TypeError ''Cannot read properties of undefined (reading 'value')'') s"
    and "emails p = Some (m # ms) \<Longrightarrow> profile_name p = None \<Longrightarrow>
      verify now p s =
        reported (TypeError ''Cannot read properties of undefined (reading 'givenName')'') s"
    and "emails p = Some (m # ms) \<Longrightarrow> profile_name p = Some n \<Longrightarrow> photos p = None \<Longrightarrow>
      verify now p s =
        reported (TypeError ''Cannot read properties of undefined (reading '0')'') s"
    and "emails p = Some (m # ms) \<Longrightarrow> profile_name p = Some n \<Longrightarrow> photos p = Some [] \<Longrightarrow>
      verify now p s =
        reported (TypeError ''Cannot read properties of undefined (reading 'value')'') s"
  using verify_body_new [OF assms, of now]
  by (simp_all add: verify_thrown new_user_fields_def first_value_def)

lemma passport_session_next:
  assumes "db_connected s \<or> cookie req = None"
  shows "\<exists>req'. passport_session now req s = (Next req', s)"
proof (cases "db_connected s")
  case True
  then show ?thesis by (rule passport_session_connected)
next
  case False
  with assms have "cookie req = None" by simp
  then show ?thesis by (simp add: passport_session_def validate_def)
qed

lemma callback_not_unhandled:
  "fst (passport_authenticate_callback now h x fr req s) \<noteq> Unhandled e"
proof (cases x)
  case (Inl a)
  then show ?thesis by (simp add: passport_authenticate_callback_def)
next
  case (Inr p)
  obtain r s' where v: "verify now p s = (r, s')" by (cases "verify now p s")
  with verify_never_escapes [of now p s] have "\<And>e. r \<noteq> Inl e" by simp
  then obtain d where "r = Inr d" by (cases r) auto
  with Inr v show ?thesis
    by (auto simp: passport_authenticate_callback_def serializeUser_def
        split: done_call.splits option.splits)
qed

lemma run_callback_not_unhandled:
  "fst (run (auth_google_callback now h x) req s) \<noteq> Unhandled e"
proof -
  obtain o1 s1 where c: "passport_authenticate_callback now h x ''/login-failed'' req s = (o1, s1)"
    by (cases "passport_authenticate_callback now h x ''/login-failed'' req s")
  with callback_not_unhandled [of now h x "''/login-failed''" req s]
  have "\<And>e. o1 \<noteq> Unhandled e" by simp
  with c show ?thesis
    by (cases o1) (simp_all add: auth_google_callback_def pure_mw_def split: prod.splits)
qed

lemma app_callback_not_unhandled:
  "fst (app now (auth_google_callback now h x) req s) \<noteq> Unhandled e"
  using passport_session_cases [of now req s] run_callback_not_unhandled [of now h x _ s e]
  by (auto simp: app_def split: prod.splits)

lemma app_callback_reported:
  assumes "db_connected s \<or> cookie req = None" and "verify now p s = reported err s"
  shows "app now (auth_google_callback now h (Inr p)) req s =
     (Respond (Json 500 (JObj [(''success'', JBool False),
                               (''message'', JStr ''Something went wrong!''),
                               (''error'', JStr (message err))])),
      s\<lparr>console := console s @ [''Error in Google Strategye: '' @ stack err, stack err]\<rparr>)"
proof -
  from passport_session_next [OF assms(1)] obtain req' where
    "passport_session now req s = (Next req', s)" ..
  with assms(2) show ?thesis
    by (simp add: app_def auth_google_callback_def passport_authenticate_callback_def
        error_handler_def reported_def)
qed

text \<open>
  Claim C10, as the code has it. For every profile and state, no error leaves the
  verify callback: whatever the \<^verbatim>\<open>try\<close> block throws is the error handed to
  \<^verbatim>\<open>done(error, null)\<close>, and nothing is written. That is the store's error when the
  store does not answer, and, for a subject without an account, Node's \<^verbatim>\<open>TypeError\<close>
  of the first field access that fails when \<^verbatim>\<open>emails\<close>, \<^verbatim>\<open>name\<close> or \<^verbatim>\<open>photos\<close> is
  missing or an array is empty. The login then ends on the error path, not on the
  failure redirect: Passport hands the error to \<^verbatim>\<open>next(err)\<close> and the error handler
  answers 500 with the error's message; no session is issued, and the callback route
  never leaves a request unanswered.
\<close>

theorem verify_catches_every_error:
  "fst (verify now p s) \<noteq> Inl e \<and>
   (verify_body now p s = Inl e \<longrightarrow> verify now p s = reported e s) \<and>
   (\<not> db_connected s \<longrightarrow> verify now p s = reported db_down s) \<and>
   (db_connected s \<and> find (\<lambda>v. googleId v = profile_id p) (users s) = None \<longrightarrow>
      (emails p = None \<longrightarrow>
         verify now p s =
           reported (TypeError ''Cannot read properties of undefined (reading '0')'') s) \<and>
      (emails p = Some [] \<longrightarrow>
         verify now p s =
           reported (TypeError ''Cannot read properties of undefined (reading 'value')'') s) \<and>
      (emails p = Some (m # ms) \<and> profile_name p = None \<longrightarrow>
         verify now p s =
           reported
             (TypeError ''Cannot read properties of undefined (reading 'givenName')'') s) \<and>
      (emails p = Some (m # ms) \<and> profile_name p = Some n \<and> photos p = None \<longrightarrow>
         verify now p s =
           reported (TypeError ''Cannot read properties of undefined (reading '0')'') s) \<and>
      (emails p = Some (m # ms) \<and> profile_name p = Some n \<and> photos p = Some [] \<longrightarrow>
         verify now p s =
           reported (TypeError ''Cannot read properties of undefined (reading 'value')'') s)) \<and>
   ((db_connected s \<or> cookie req = None) \<and> verify now p s = reported err s \<longrightarrow>
      app now (auth_google_callback now h (Inr p)) req s =
        (Respond (Json 500 (JObj [(''success'', JBool False),
                                  (''message'', JStr ''Something went wrong!''),
                                  (''error'', JStr (message err))])),
         s\<lparr>console := console s @
              [''Error in Google Strategye: '' @ stack err, stack err]\<rparr>)) \<and>
   fst (app now (auth_google_callback now h x) req s) \<noteq> Unhandled e"
  using verify_never_escapes [of now p s e] verify_thrown [of now p s e]
    verify_down [of s now p]
    verify_field_errors [where s = s and p = p and now = now]
    app_callback_reported [of s req now p err h]
    app_callback_not_unhandled [of now h x req s e]
  by blast

text \<open>
  The claim as stated fails: the login does not follow the failure path. For a new
  subject whose profile has no emails the callback route answers 500 with the
  \<^verbatim>\<open>TypeError\<close>'s message, not with the redirect to \<^verbatim>\<open>/login-failed\<close>.
\<close>

theorem callback_error_is_not_failure_redirect:
  "missing_field profile_malformed \<and>
   fst (app 60 (auth_google_callback 60 ''sn'' (Inr profile_malformed))
          (request_of None None) st0) =
     Respond (Json 500 (JObj [(''success'', JBool False),
        (''message'', JStr ''Something went wrong!''),
        (''error'', JStr ''Cannot read properties of undefined (reading '0')'')])) \<and>
   fst (app 60 (auth_google_callback 60 ''sn'' (Inr profile_malformed))
          (request_of None None) st0) \<noteq>
     Respond (Redirect ''/login-failed'')"
  by (simp add: missing_field_def profile_malformed_def app_def passport_session_def
      validate_def request_of_def auth_google_callback_def passport_authenticate_callback_def
      verify_def verify_body_def findOne_googleId_def new_user_fields_def first_value_def
      error_handler_def TypeError_def st0_def alice_def bob_def)

theorem verify_catches_every_error_witness:
  "verify_body 60 profile_malformed st0 =
     Inl (TypeError ''Cannot read properties of undefined (reading '0')'') \<and>
   verify 60 profile_malformed st0 =
     reported (TypeError ''Cannot read properties of undefined (reading '0')'') st0 \<and>
   verify 60 profile_carol (st0\<lparr>db_connected := False\<rparr>) =
     reported db_down (st0\<lparr>db_connected := False\<rparr>) \<and>
   verify 60 (profile_malformed\<lparr>emails := Some []\<rparr>) st0 =
     reported (TypeError ''Cannot read properties of undefined (reading 'value')'') st0 \<and>
   verify 60 (profile_malformed\<lparr>emails := Some [''d@x.com'']\<rparr>) st0 =
     reported (TypeError ''Cannot read properties of undefined (reading 'givenName')'') st0 \<and>
   verify 60 profile_nophoto st0 =
     reported (TypeError ''Cannot read properties of undefined (reading '0')'') st0 \<and>
   verify 60 (profile_nophoto\<lparr>photos := Some []\<rparr>) st0 =
     reported (TypeError ''Cannot read properties of undefined (reading 'value')'') st0 \<and>
   app 60 (auth_google_callback 60 ''sn'' (Inr profile_malformed)) (request_of None None) st0 =
     (Respond (Json 500 (JObj [(''success'', JBool False),
        (''message'', JStr ''Something went wrong!''),
        (''error'', JStr ''Cannot read properties of undefined (reading '0')'')])),
      st0\<lparr>console :=
        [''Error in Google Strategye: TypeError: Cannot read properties of undefined (reading '0')'',
         ''TypeError: Cannot read properties of undefined (reading '0')'']\<rparr>)"
proof -
  let ?e0 = "TypeError ''Cannot read properties of undefined (reading '0')''"
  have c: "db_connected st0" "\<not> db_connected (st0\<lparr>db_connected := False\<rparr>)"
    by (simp_all add: st0_def)
  have f: "find (\<lambda>v. googleId v = profile_id profile_malformed) (users st0) = None"
    "find (\<lambda>v. googleId v = profile_id profile_nophoto) (users st0) = None"
    by (simp_all add: st0_def alice_def bob_def profile_malformed_def profile_nophoto_def)
  have b: "verify_body 60 profile_malformed st0 = Inl ?e0"
    by (simp add: verify_body_def findOne_googleId_def new_user_fields_def first_value_def
        st0_def alice_def bob_def profile_malformed_def)
  have p: "emails profile_malformed = None"
    "profile_id (profile_malformed\<lparr>emails := Some []\<rparr>) = profile_id profile_malformed"
    "profile_id (profile_malformed\<lparr>emails := Some [''d@x.com'']\<rparr>) =
       profile_id profile_malformed"
    "profile_name (profile_malformed\<lparr>emails := Some [''d@x.com'']\<rparr>) = None"
    "emails profile_nophoto = Some [''e@x.com'']"
    "profile_name profile_nophoto = Some \<lparr>givenName = Some ''Eve'', familyName = None\<rparr>"
    "photos profile_nophoto = None"
    "profile_id (profile_nophoto\<lparr>photos := Some []\<rparr>) = profile_id profile_nophoto"
    by (simp_all add: profile_malformed_def profile_nophoto_def)
  from verify_catches_every_error
    [where now = 60 and p = profile_malformed and s = st0 and e = ?e0] b
  have t1: "verify 60 profile_malformed st0 = reported ?e0 st0"
    by blast
  from verify_catches_every_error
    [where now = 60 and p = profile_carol and s = "st0\<lparr>db_connected := False\<rparr>"] c(2)
  have t2: "verify 60 profile_carol (st0\<lparr>db_connected := False\<rparr>) =
     reported db_down (st0\<lparr>db_connected := False\<rparr>)"
    by blast
  from verify_catches_every_error
    [where now = 60 and p = "profile_malformed\<lparr>emails := Some []\<rparr>" and s = st0] c(1) f(1)
  have t3: "verify 60 (profile_malformed\<lparr>emails := Some []\<rparr>) st0 =
     reported (TypeError ''Cannot read properties of undefined (reading 'value')'') st0"
    by (simp add: p)
  from verify_catches_every_error
    [where now = 60 and p = "profile_malformed\<lparr>emails := Some [''d@x.com'']\<rparr>" and s = st0
       and m = "''d@x.com''" and ms = "[]"] c(1) f(1)
  have t4: "verify 60 (profile_malformed\<lparr>emails := Some [''d@x.com'']\<rparr>) st0 =
     reported (TypeError ''Cannot read properties of undefined (reading 'givenName')'') st0"
    by (simp add: p)
  from verify_catches_every_error
    [where now = 60 and p = profile_nophoto and s = st0 and m = "''e@x.com''" and ms = "[]"
       and n = "\<lparr>givenName = Some ''Eve'', familyName = None\<rparr>"] c(1) f(2)
  have t5: "verify 60 profile_nophoto st0 = reported ?e0 st0"
    by (simp add: p)
  from verify_catches_every_error
    [where now = 60 and p = "profile_nophoto\<lparr>photos := Some []\<rparr>" and s = st0
       and m = "''e@x.com''" and ms = "[]"
       and n = "\<lparr>givenName = Some ''Eve'', familyName = None\<rparr>"] c(1) f(2)
  have t6: "verify 60 (profile_nophoto\<lparr>photos := Some []\<rparr>) st0 =
     reported (TypeError ''Cannot read properties of undefined (reading 'value')'') st0"
    by (simp add: p)
  from verify_catches_every_error
    [where now = 60 and p = profile_malformed and s = st0 and err = ?e0
       and req = "request_of None None" and h = "''sn''"] c(1) t1
  have "app 60 (auth_google_callback 60 ''sn'' (Inr profile_malformed))
      (request_of None None) st0 =
     (Respond (Json 500 (JObj [(''success'', JBool False),
        (''message'', JStr ''Something went wrong!''),
        (''error'', JStr (message ?e0))])),
      st0\<lparr>console := console st0 @
        [''Error in Google Strategye: '' @ stack ?e0, stack ?e0]\<rparr>)"
    by blast
  then have t7: "app 60 (auth_google_callback 60 ''sn'' (Inr profile_malformed))
      (request_of None None) st0 =
     (Respond (Json 500 (JObj [(''success'', JBool False),
        (''message'', JStr ''Something went wrong!''),
        (''error'', JStr ''Cannot read properties of undefined (reading '0')'')])),
      st0\<lparr>console :=
        [''Error in Google Strategye: TypeError: Cannot read properties of undefined (reading '0')'',
         ''TypeError: Cannot read properties of undefined (reading '0')'']\<rparr>)"
    by (simp add: TypeError_def st0_def)
  from b t1 t2 t3 t4 t5 t6 t7 show ?thesis by blast
qed

section \<open>Reconciling an external profile with the accounts\<close>

lemma find_key_distinct:
  "distinct (map f xs) \<Longrightarrow> x \<in> set xs \<Longrightarrow> find (\<lambda>y. f y = f x) xs = Some x"
  by (induction xs) (auto simp: rev_image_eqI)

lemma find_SomeD: "find P xs = Some x \<Longrightarrow> x \<in> set xs \<and> P x"
  by (induction xs) (auto split: if_splits)

lemma same_oid_same_doc:
  "distinct (map oid us) \<Longrightarrow> u \<in> set us \<Longrightarrow> v \<in> set us \<Longrightarrow> oid v = oid u \<Longrightarrow> v = u"
  by (metis distinct_map inj_onD)

lemma verify_existing:
  assumes "db_connected s" "find (\<lambda>v. googleId v = profile_id p) (users s) = Some u"
  shows "verify now p s =
     (Inr (Done None (Some (u\<lparr>lastLogin := now\<rparr>))),
      s\<lparr>users := map (\<lambda>v. if oid v = oid u then u\<lparr>lastLogin := now\<rparr> else v) (users s),
        writes := writes s @ [UserUpdate (oid u)]\<rparr>)"
  using assms
  by (simp add: verify_def verify_body_def findOne_googleId_def save_def Let_def)














section \<open>Only the last login changes\<close>

lemma getAllTasks_users: "users (snd (getAllTasks req s)) = users s"
  by (simp add: getAllTasks_def Let_def split: option.splits)

lemma getTaskById_users: "users (snd (getTaskById req s)) = users s"
  by (simp add: getTaskById_def split: option.splits)

lemma createTask_users: "users (snd (createTask now req s)) = users s"
  by (simp add: createTask_def Let_def split: option.splits)

lemma updateTask_users: "users (snd (updateTask req s)) = users s"
  by (simp add: updateTask_def Let_def split: option.splits)

lemma deleteTask_users: "users (snd (deleteTask req s)) = users s"
  by (simp add: deleteTask_def split: option.splits)

lemma run_handler_users:
  assumes "\<And>req s. users (snd (h req s)) = users s"
  shows "users (snd (run [h] req s)) = users s"
proof -
  obtain r s' where h: "h req s = (r, s')" by (cases "h req s")
  with assms [of req s] have "users s' = users s" by simp
  with h show ?thesis by (cases r) (simp_all add: error_handler_def)
qed

lemma app_tasks_users:
  assumes "\<And>req s. users (snd (h req s)) = users s"
  shows "users (snd (app now (tasks_router h) req s)) = users s"
proof (cases "validate now (cookie req) s")
  case (Valid u)
  with app_valid [of now req s u h] run_handler_users [of h, OF assms] show ?thesis by simp
next
  case Invalid
  with app_invalid [of now req s h] show ?thesis by simp
next
  case (Failed e)
  then show ?thesis by (simp add: app_def passport_session_def error_handler_def)
qed

lemma save_other_docs:
  assumes "distinct (map oid us)" "u \<in> set us"
  shows "map (\<lambda>v. if oid v = oid u then u' else v) us = map (\<lambda>v. if v = u then u' else v) us"
  using same_oid_same_doc [OF assms] by (auto cong: map_cong)

text \<open>
  Claim C4. When the lookup by subject id finds an account (the documents' ids being
  distinct), the callback returns that account with \<^verbatim>\<open>lastLogin\<close> set to the current
  time and every other field as it was, and the collection afterwards is the old one
  with this account replaced: no other account changes. The five task routes leave the
  accounts as they are, whatever the request.
\<close>

theorem reconcile_existing_updates_lastLogin_only:
  "(db_connected s \<and> find (\<lambda>v. googleId v = profile_id p) (users s) = Some u \<and>
    distinct (map oid (users s)) \<longrightarrow>
      (\<exists>u'. fst (verify now p s) = Inr (Done None (Some u')) \<and>
            users (snd (verify now p s)) = map (\<lambda>v. if v = u then u' else v) (users s) \<and>
            lastLogin u' = now \<and> oid u' = oid u \<and> googleId u' = googleId u \<and>
            email u' = email u \<and> displayName u' = displayName u \<and>
            firstName u' = firstName u \<and> lastName u' = lastName u \<and>
            picture u' = picture u \<and> createdAt u' = createdAt u)) \<and>
   users (snd (app now (tasks_router getAllTasks) req s)) = users s \<and>
   users (snd (app now (tasks_router getTaskById) req s)) = users s \<and>
   users (snd (app now (tasks_router (createTask now)) req s)) = users s \<and>
   users (snd (app now (tasks_router updateTask) req s)) = users s \<and>
   users (snd (app now (tasks_router deleteTask) req s)) = users s"
proof -
  {
    assume a: "db_connected s \<and> find (\<lambda>v. googleId v = profile_id p) (users s) = Some u \<and>
      distinct (map oid (users s))"
    then have m: "u \<in> set (users s)"
      using find_SomeD [of "\<lambda>v. googleId v = profile_id p" "users s" u] by blast
    from a verify_existing [of s p u now]
    have v: "verify now p s =
       (Inr (Done None (Some (u\<lparr>lastLogin := now\<rparr>))),
        s\<lparr>users := map (\<lambda>v. if oid v = oid u then u\<lparr>lastLogin := now\<rparr> else v) (users s),
          writes := writes s @ [UserUpdate (oid u)]\<rparr>)"
      by simp
    from a save_other_docs [OF _ m, of "u\<lparr>lastLogin := now\<rparr>"] v
    have "users (snd (verify now p s)) =
        map (\<lambda>v. if v = u then u\<lparr>lastLogin := now\<rparr> else v) (users s)"
      by simp
    with v have "\<exists>u'. fst (verify now p s) = Inr (Done None (Some u')) \<and>
            users (snd (verify now p s)) = map (\<lambda>v. if v = u then u' else v) (users s) \<and>
            lastLogin u' = now \<and> oid u' = oid u \<and> googleId u' = googleId u \<and>
            email u' = email u \<and> displayName u' = displayName u \<and>
            firstName u' = firstName u \<and> lastName u' = lastName u \<and>
            picture u' = picture u \<and> createdAt u' = createdAt u"
      by (intro exI [of _ "u\<lparr>lastLogin := now\<rparr>"]) simp
  }
  then show ?thesis
    by (simp add: app_tasks_users getAllTasks_users getTaskById_users createTask_users
        updateTask_users deleteTask_users)
qed

theorem reconcile_existing_updates_lastLogin_only_witness:
  "db_connected st0 \<and>
   find (\<lambda>v. googleId v = profile_id profile_alice) (users st0) = Some alice \<and>
   distinct (map oid (users st0)) \<and>
   (\<exists>u'. fst (verify 60 profile_alice st0) = Inr (Done None (Some u')) \<and>
         users (snd (verify 60 profile_alice st0)) = [u', bob] \<and>
         lastLogin u' = 60 \<and> oid u' = 1 \<and> googleId u' = ''g-1'' \<and>
         email u' = ''a@x.com'' \<and> displayName u' = ''Alice'' \<and>
         firstName u' = Some ''Alice'' \<and> lastName u' = None \<and>
         picture u' = None \<and> createdAt u' = 5)"
proof -
  have h: "db_connected st0 \<and>
     find (\<lambda>v. googleId v = profile_id profile_alice) (users st0) = Some alice \<and>
     distinct (map oid (users st0))"
    by (simp add: st0_def alice_def bob_def profile_alice_def)
  have u: "users st0 = [alice, bob]" "alice \<noteq> bob"
    by (simp_all add: st0_def alice_def bob_def)
  have f: "oid alice = 1 \<and> googleId alice = ''g-1'' \<and> email alice = ''a@x.com'' \<and>
     displayName alice = ''Alice'' \<and> firstName alice = Some ''Alice'' \<and>
     lastName alice = None \<and> picture alice = None \<and> createdAt alice = 5"
    by (simp add: alice_def)
  from reconcile_existing_updates_lastLogin_only [of st0 profile_alice alice 60] h
  obtain u' where
    "fst (verify 60 profile_alice st0) = Inr (Done None (Some u')) \<and>
     users (snd (verify 60 profile_alice st0)) =
       map (\<lambda>v. if v = alice then u' else v) (users st0) \<and>
     lastLogin u' = 60 \<and> oid u' = oid alice \<and> googleId u' = googleId alice \<and>
     email u' = email alice \<and> displayName u' = displayName alice \<and>
     firstName u' = firstName alice \<and> lastName u' = lastName alice \<and>
     picture u' = picture alice \<and> createdAt u' = createdAt alice"
    by blast
  with u f have "fst (verify 60 profile_alice st0) = Inr (Done None (Some u')) \<and>
         users (snd (verify 60 profile_alice st0)) = [u', bob] \<and>
         lastLogin u' = 60 \<and> oid u' = 1 \<and> googleId u' = ''g-1'' \<and>
         email u' = ''a@x.com'' \<and> displayName u' = ''Alice'' \<and>
         firstName u' = Some ''Alice'' \<and> lastName u' = None \<and>
         picture u' = None \<and> createdAt u' = 5"
    by simp
  with h show ?thesis by blast
qed

section \<open>Tasks of another account\<close>

lemma find_owned_foreign:
  assumes "distinct (map task_id (tasks s))" "t \<in> set (tasks s)" "userId t \<noteq> oid b"
  shows "find_owned b (task_id t) s = None"
  using assms find_key_distinct [of task_id "tasks s" t] by (simp add: find_owned_def)

lemma find_owned_absent:
  "find_owned b i (s\<lparr>tasks := filter (\<lambda>x. task_id x \<noteq> i) (tasks s)\<rparr>) = None"
proof -
  have "find (\<lambda>x. task_id x = i) (filter (\<lambda>x. task_id x \<noteq> i) (tasks s)) = None"
    by (simp add: find_None_iff)
  then show ?thesis by (simp add: find_owned_def)
qed

lemma deserializeUser_tasks: "deserializeUser i (s\<lparr>tasks := ts\<rparr>) = deserializeUser i s"
  by (simp add: deserializeUser_def findById_def)

lemma validate_tasks: "validate now h (s\<lparr>tasks := ts\<rparr>) = validate now h s"
  by (simp add: validate_def deserializeUser_tasks split: option.splits)

lemma not_owned_handlers:
  assumes "find_owned b i s = None" "db_connected s" "user req = Some b" "param_id req = Some i"
  shows "run [getTaskById] req s = (Respond not_found, s)"
    and "run [updateTask] req s = (Respond not_found, s)"
    and "run [deleteTask] req s = (Respond not_found, s)"
  using assms by (simp_all add: getTaskById_def updateTask_def deleteTask_def)


text \<open>
  Claim C1. Task \<open>t\<close> is stored (task ids being distinct) and owned by account \<open>a\<close>;
  the request is authenticated as a different account \<open>b\<close> and names \<open>t\<close>'s id; the
  store answers. Then \<^verbatim>\<open>GET\<close>, \<^verbatim>\<open>PUT\<close> and \<^verbatim>\<open>DELETE /api/tasks/:id\<close> each answer
  404 "Task not found" and leave the state, and with it \<open>t\<close>, as it was. The answer
  is the one the same request gets when \<open>t\<close> is not stored at all.
\<close>

theorem foreign_task_not_found:
  "t \<in> set (tasks s) \<and> distinct (map task_id (tasks s)) \<and> userId t = oid a \<and>
   oid b \<noteq> oid a \<and> db_connected s \<and> validate now (cookie req) s = Valid b \<and>
   param_id req = Some (task_id t) \<longrightarrow>
     app now (tasks_router getTaskById) req s = (Respond not_found, s) \<and>
     app now (tasks_router updateTask) req s = (Respond not_found, s) \<and>
     app now (tasks_router deleteTask) req s = (Respond not_found, s) \<and>
     app now (tasks_router getTaskById) req
         (s\<lparr>tasks := filter (\<lambda>x. task_id x \<noteq> task_id t) (tasks s)\<rparr>) =
       (Respond not_found, s\<lparr>tasks := filter (\<lambda>x. task_id x \<noteq> task_id t) (tasks s)\<rparr>) \<and>
     app now (tasks_router updateTask) req
         (s\<lparr>tasks := filter (\<lambda>x. task_id x \<noteq> task_id t) (tasks s)\<rparr>) =
       (Respond not_found, s\<lparr>tasks := filter (\<lambda>x. task_id x \<noteq> task_id t) (tasks s)\<rparr>) \<and>
     app now (tasks_router deleteTask) req
         (s\<lparr>tasks := filter (\<lambda>x. task_id x \<noteq> task_id t) (tasks s)\<rparr>) =
       (Respond not_found, s\<lparr>tasks := filter (\<lambda>x. task_id x \<noteq> task_id t) (tasks s)\<rparr>) \<and>
     not_found =
       Json 404 (JObj [(''success'', JBool False), (''message'', JStr ''Task not found'')])"
proof
  assume a: "t \<in> set (tasks s) \<and> distinct (map task_id (tasks s)) \<and> userId t = oid a \<and>
   oid b \<noteq> oid a \<and> db_connected s \<and> validate now (cookie req) s = Valid b \<and>
   param_id req = Some (task_id t)"
  let ?s0 = "s\<lparr>tasks := filter (\<lambda>x. task_id x \<noteq> task_id t) (tasks s)\<rparr>"
  let ?req = "req\<lparr>user := Some b\<rparr>"
  from a have f: "find_owned b (task_id t) s = None"
    by (simp add: find_owned_foreign)
  have f0: "find_owned b (task_id t) ?s0 = None"
    by (rule find_owned_absent)
  from a have r: "user ?req = Some b" "param_id ?req = Some (task_id t)"
    by simp_all
  from a have c: "db_connected s" "db_connected ?s0"
    by simp_all
  from a have v: "validate now (cookie req) s = Valid b" "validate now (cookie req) ?s0 = Valid b"
    by (simp_all add: validate_tasks)
  note h = not_owned_handlers [OF f c(1) r] not_owned_handlers [OF f0 c(2) r]
  from v h show
    "app now (tasks_router getTaskById) req s = (Respond not_found, s) \<and>
     app now (tasks_router updateTask) req s = (Respond not_found, s) \<and>
     app now (tasks_router deleteTask) req s = (Respond not_found, s) \<and>
     app now (tasks_router getTaskById) req ?s0 = (Respond not_found, ?s0) \<and>
     app now (tasks_router updateTask) req ?s0 = (Respond not_found, ?s0) \<and>
     app now (tasks_router deleteTask) req ?s0 = (Respond not_found, ?s0) \<and>
     not_found =
       Json 404 (JObj [(''success'', JBool False), (''message'', JStr ''Task not found'')])"
    by (simp add: app_valid not_found_def)
qed

theorem foreign_task_not_found_witness:
  "task1 \<in> set (tasks st0) \<and> distinct (map task_id (tasks st0)) \<and>
   userId task1 = oid alice \<and> oid bob \<noteq> oid alice \<and> db_connected st0 \<and>
   validate 50 (cookie (request_of (Some ''sb'') (Some 7))) st0 = Valid bob \<and>
   param_id (request_of (Some ''sb'') (Some 7)) = Some (task_id task1) \<and>
   app 50 (tasks_router getTaskById) (request_of (Some ''sb'') (Some 7)) st0 =
     (Respond not_found, st0) \<and>
   app 50 (tasks_router updateTask) (request_of (Some ''sb'') (Some 7)) st0 =
     (Respond not_found, st0) \<and>
   app 50 (tasks_router deleteTask) (request_of (Some ''sb'') (Some 7)) st0 =
     (Respond not_found, st0) \<and>
   app 50 (tasks_router deleteTask) (request_of (Some ''sb'') (Some 7))
       (st0\<lparr>tasks := []\<rparr>) =
     (Respond not_found, st0\<lparr>tasks := []\<rparr>)"
proof -
  have h: "task1 \<in> set (tasks st0) \<and> distinct (map task_id (tasks st0)) \<and>
     userId task1 = oid alice \<and> oid bob \<noteq> oid alice \<and> db_connected st0 \<and>
     validate 50 (cookie (request_of (Some ''sb'') (Some 7))) st0 = Valid bob \<and>
     param_id (request_of (Some ''sb'') (Some 7)) = Some (task_id task1)"
    using validate_st0_sb
    by (simp add: st0_def task1_def alice_def bob_def request_of_def)
  have e: "filter (\<lambda>x. task_id x \<noteq> task_id task1) (tasks st0) = []"
    by (simp add: st0_def)
  from foreign_task_not_found
    [of task1 st0 alice bob 50 "request_of (Some ''sb'') (Some 7)"] h e
  show ?thesis by simp
qed

end
